theory Spec2Isabelle
  imports Complex_Main
begin

section \<open>GetSuite: a mock record service over two tables\<close>

text \<open>
  A shallow embedding of \<^verbatim>\<open>getsuiteAPI.py\<close>. Every endpoint is a function from the
  committed contents of the database to a response and the new contents. The clock
  (\<^verbatim>\<open>time.strftime\<close>) is an argument of the endpoints that read it. \<^verbatim>\<open>simulate_latency\<close>
  only sleeps and is left out. Requests are handled one at a time.
\<close>

subsection \<open>Exceptions\<close>

datatype error =
    HTTPException int string
  | RequestValidationError
  | TypeError string
  | IntegrityError string
  | OverflowError string

text \<open>
  The status the client sees: an \<^verbatim>\<open>HTTPException\<close> carries its own, a body rejected
  by the schema is 422, and an exception no handler catches is 500.
\<close>

fun http_status :: "error \<Rightarrow> int" where
  "http_status (HTTPException code detail) = code"
| "http_status RequestValidationError = 422"
| "http_status (TypeError msg) = 500"
| "http_status (IntegrityError msg) = 500"
| "http_status (OverflowError msg) = 500"

subsection \<open>Formatting an integer, as an f-string does\<close>

definition digit_char :: "nat \<Rightarrow> char" where
  "digit_char d = ''0123456789'' ! d"

fun digits :: "nat \<Rightarrow> string" where
  "digits n = (if n < 10 then [digit_char n] else digits (n div 10) @ [digit_char (n mod 10)])"

declare digits.simps [simp del]

definition str_int :: "int \<Rightarrow> string" where
  "str_int i = (if i < 0 then CHR ''-'' # digits (nat (- i)) else digits (nat i))"

text \<open>The digit a character stands for, to read a decimal numeral back.\<close>

definition digit_val :: "char \<Rightarrow> nat" where
  "digit_val c = of_char c - 48"

text \<open>\<^verbatim>\<open>f"{x}"\<close> of an attribute that may still be \<^verbatim>\<open>None\<close>.\<close>

fun format_id :: "int option \<Rightarrow> string" where
  "format_id None = ''None''"
| "format_id (Some i) = str_int i"

subsection \<open>Pydantic schemas\<close>

text \<open>
  \<^verbatim>\<open>CustomerBase\<close>: two required strings and \<^verbatim>\<open>status\<close> with the default
  \<^verbatim>\<open>"Active"\<close>. \<^verbatim>\<open>fields_set\<close> is pydantic's record of the fields the request
  supplied, which \<^verbatim>\<open>model_dump(exclude_unset=True)\<close> reads.
\<close>

record CustomerBase =
  companyName :: string
  email :: string
  status :: string
  fields_set :: "string list"

text \<open>
  \<^verbatim>\<open>SalesOrderBase\<close>: \<^verbatim>\<open>total\<close> is a float that the service stores and returns and
  never computes with, so its type is left open.
\<close>

record 'f SalesOrderBase =
  entity :: int
  total :: 'f
  status :: string
  trandate :: "string option"

text \<open>The keys and values of \<^verbatim>\<open>customer.model_dump()\<close>, in field order.\<close>

definition model_dump :: "CustomerBase \<Rightarrow> (string \<times> string) list" where
  "model_dump c =
     [(''companyName'', CustomerBase.companyName c),
      (''email'', CustomerBase.email c),
      (''status'', CustomerBase.status c)]"

definition model_dump_exclude_unset :: "CustomerBase \<Rightarrow> (string \<times> string) list" where
  "model_dump_exclude_unset c =
     filter (\<lambda>(key, v). key \<in> set (fields_set c)) (model_dump c)"

text \<open>The keys of \<^verbatim>\<open>order.model_dump()\<close>: every field, set or not.\<close>

definition order_model_dump_keys :: "string list" where
  "order_model_dump_keys = [''entity'', ''total'', ''status'', ''trandate'']"

text \<open>
  A parsed JSON request body. A number keeps its literal text: the customer schema
  has string fields only and rejects every number.
\<close>

datatype json =
    JNull
  | JBool bool
  | JNumber string
  | JString string
  | JArray "json list"
  | JObject "(string \<times> json) list"

text \<open>\<^verbatim>\<open>json.loads\<close> keeps the last value of a repeated key.\<close>

definition json_get :: "(string \<times> json) list \<Rightarrow> string \<Rightarrow> json option" where
  "json_get members key = map_of (rev members) key"

text \<open>
  Validation of a request body against \<^verbatim>\<open>CustomerBase\<close>: \<^verbatim>\<open>companyName\<close> and
  \<^verbatim>\<open>email\<close> must be present and strings; \<^verbatim>\<open>status\<close> may be absent, and is then
  the default and not in \<^verbatim>\<open>fields_set\<close>; keys the schema does not name are ignored.
\<close>

definition validate_CustomerBase :: "json \<Rightarrow> error + CustomerBase" where
  "validate_CustomerBase body =
     (case body of
        JObject members \<Rightarrow>
          (case (json_get members ''companyName'', json_get members ''email'') of
             (Some (JString cn), Some (JString em)) \<Rightarrow>
               (case json_get members ''status'' of
                  None \<Rightarrow>
                    Inr \<lparr>CustomerBase.companyName = cn, CustomerBase.email = em,
                         CustomerBase.status = ''Active'',
                         CustomerBase.fields_set = [''companyName'', ''email'']\<rparr>
                | Some (JString st) \<Rightarrow>
                    Inr \<lparr>CustomerBase.companyName = cn, CustomerBase.email = em,
                         CustomerBase.status = st,
                         CustomerBase.fields_set = [''companyName'', ''email'', ''status'']\<rparr>
                | Some _ \<Rightarrow> Inl RequestValidationError)
           | _ \<Rightarrow> Inl RequestValidationError)
      | _ \<Rightarrow> Inl RequestValidationError)"

subsection \<open>ORM models and the database\<close>

text \<open>
  An object of \<^verbatim>\<open>DBCustomer\<close> or \<^verbatim>\<open>DBSalesOrder\<close>. The primary key is \<^verbatim>\<open>None\<close>
  until the row is inserted; \<^verbatim>\<open>tranId\<close> and \<^verbatim>\<open>lastUpdated\<close> are \<^verbatim>\<open>None\<close> until set.
\<close>

record DBCustomer =
  id_col :: "int option"
  entityId :: string
  companyName :: string
  email :: string
  status :: string
  dateCreated :: string
  lastUpdated :: "string option"

record 'f DBSalesOrder =
  id_col :: "int option"
  tranId :: "string option"
  entity :: int
  total :: 'f
  status :: string
  trandate :: string
  lastUpdated :: "string option"

text \<open>The two tables, rows in insertion order.\<close>

record 'f database =
  customers :: "DBCustomer list"
  sales_orders :: "'f DBSalesOrder list"

definition empty_database :: "'f database" where
  "empty_database = \<lparr>customers = [], sales_orders = []\<rparr>"

text \<open>
  A call \<^verbatim>\<open>Model(**mapping, k1=v1, ...)\<close>. Python raises \<^verbatim>\<open>TypeError\<close> when a
  keyword after \<^verbatim>\<open>**mapping\<close> repeats one of its keys, and the declarative
  constructor raises \<^verbatim>\<open>TypeError\<close> for a keyword that is not an attribute of the
  model. The result is the list of keywords the constructor receives. The messages
  name the key in single quotes; the first names the callee by module and class,
  the module being \<^verbatim>\<open>getsuiteAPI\<close> when the server imports the file.
\<close>

definition quoted :: "string \<Rightarrow> string" where
  "quoted key = CHR 0x27 # key @ [CHR 0x27]"

fun merge_keywords :: "string \<Rightarrow> string list \<Rightarrow> string list \<Rightarrow> error + string list" where
  "merge_keywords model seen [] = Inr seen"
| "merge_keywords model seen (key # rest) =
     (if key \<in> set seen
      then Inl (TypeError (''getsuiteAPI.'' @ model
                  @ ''() got multiple values for keyword argument '' @ quoted key))
      else merge_keywords model (seen @ [key]) rest)"

definition construct ::
  "string \<Rightarrow> string list \<Rightarrow> string list \<Rightarrow> string list \<Rightarrow> error + unit" where
  "construct model attributes mapping_keys keywords =
     (case merge_keywords model mapping_keys keywords of
        Inl e \<Rightarrow> Inl e
      | Inr kwargs \<Rightarrow>
          (case find (\<lambda>key. key \<notin> set attributes) kwargs of
             Some key \<Rightarrow>
               Inl (TypeError (quoted key @ '' is an invalid keyword argument for '' @ model))
           | None \<Rightarrow> Inr ()))"

definition DBCustomer_attributes :: "string list" where
  "DBCustomer_attributes =
     [''id'', ''entityId'', ''companyName'', ''email'', ''status'', ''dateCreated'', ''lastUpdated'']"

definition DBSalesOrder_attributes :: "string list" where
  "DBSalesOrder_attributes =
     [''id'', ''tranId'', ''entity'', ''total'', ''status'', ''trandate'', ''lastUpdated'']"

text \<open>
  The integer primary key of a new row: SQLite gives one more than the largest
  key in the table, and 1 in an empty table. That is its rule while the largest
  key is below the largest signed 64-bit integer, which a table filled one row
  at a time from empty does not reach.
\<close>

definition next_rowid :: "int list \<Rightarrow> int" where
  "next_rowid keys = (if keys = [] then 1 else Max (set keys) + 1)"

definition customer_ids :: "'f database \<Rightarrow> int list" where
  "customer_ids db = List.map_filter DBCustomer.id_col (customers db)"

definition order_ids :: "'f database \<Rightarrow> int list" where
  "order_ids db = List.map_filter DBSalesOrder.id_col (sales_orders db)"

text \<open>
  An integer of the request becomes a parameter of the SQL statement. SQLite
  integers are signed 64-bit: the driver raises \<^verbatim>\<open>OverflowError\<close> for a Python
  \<^verbatim>\<open>int\<close> outside that range, which the schema and the path accept.
\<close>

definition in_int64 :: "int \<Rightarrow> bool" where
  "in_int64 i = (- (2 ^ 63) \<le> i \<and> i < 2 ^ 63)"

definition int_overflow :: error where
  "int_overflow = OverflowError ''Python int too large to convert to SQLite INTEGER''"

text \<open>The first row of the table with the given key, if there is one.\<close>

definition select_customer :: "'f database \<Rightarrow> int \<Rightarrow> DBCustomer option" where
  "select_customer db customer_id =
     find (\<lambda>row. DBCustomer.id_col row = Some customer_id) (customers db)"

definition select_order :: "'f database \<Rightarrow> int \<Rightarrow> 'f DBSalesOrder option" where
  "select_order db order_id =
     find (\<lambda>row. DBSalesOrder.id_col row = Some order_id) (sales_orders db)"

text \<open>\<^verbatim>\<open>db.query(DBCustomer).filter(DBCustomer.id == customer_id).first()\<close>\<close>

definition query_customer :: "'f database \<Rightarrow> int \<Rightarrow> error + DBCustomer option" where
  "query_customer db customer_id =
     (if in_int64 customer_id then Inr (select_customer db customer_id) else Inl int_overflow)"

definition query_order :: "'f database \<Rightarrow> int \<Rightarrow> error + 'f DBSalesOrder option" where
  "query_order db order_id =
     (if in_int64 order_id then Inr (select_order db order_id) else Inl int_overflow)"

text \<open>
  \<^verbatim>\<open>db.add(obj); db.commit(); db.refresh(obj)\<close>: an INSERT. The unique index on
  \<^verbatim>\<open>entityId\<close> rejects a value some row already has. The refreshed object carries
  the key the table assigned.
\<close>

definition add_customer :: "'f database \<Rightarrow> DBCustomer \<Rightarrow> error + DBCustomer \<times> 'f database" where
  "add_customer db obj =
     (if DBCustomer.entityId obj \<in> set (map DBCustomer.entityId (customers db))
      then Inl (IntegrityError ''UNIQUE constraint failed: customers.entityId'')
      else
        let row = obj\<lparr>DBCustomer.id_col := Some (next_rowid (customer_ids db))\<rparr>
        in Inr (row, db\<lparr>customers := customers db @ [row]\<rparr>))"

text \<open>The unique index on \<^verbatim>\<open>tranId\<close> admits any number of NULLs.\<close>

definition tranId_taken :: "'f database \<Rightarrow> string option \<Rightarrow> bool" where
  "tranId_taken db t =
     (case t of None \<Rightarrow> False
      | Some v \<Rightarrow> Some v \<in> set (map DBSalesOrder.tranId (sales_orders db)))"

definition add_order :: "'f database \<Rightarrow> 'f DBSalesOrder \<Rightarrow> error + 'f DBSalesOrder \<times> 'f database" where
  "add_order db obj =
     (if tranId_taken db (DBSalesOrder.tranId obj)
      then Inl (IntegrityError ''UNIQUE constraint failed: sales_orders.tranId'')
      else
        let row = obj\<lparr>DBSalesOrder.id_col := Some (next_rowid (order_ids db))\<rparr>
        in Inr (row, db\<lparr>sales_orders := sales_orders db @ [row]\<rparr>))"

text \<open>
  \<^verbatim>\<open>db.commit()\<close> after attributes of a loaded object were assigned: an UPDATE of
  the row with the object's key. \<^verbatim>\<open>old\<close> is the object as loaded, \<^verbatim>\<open>new\<close> as
  assigned; the unique index is checked when the indexed column changed.
\<close>

fun replace_customer :: "DBCustomer \<Rightarrow> DBCustomer list \<Rightarrow> DBCustomer list" where
  "replace_customer new [] = []"
| "replace_customer new (row # rows) =
     (if DBCustomer.id_col row = DBCustomer.id_col new then new # rows
      else row # replace_customer new rows)"

definition commit_customer :: "'f database \<Rightarrow> DBCustomer \<Rightarrow> DBCustomer \<Rightarrow> error + 'f database" where
  "commit_customer db old new =
     (if DBCustomer.entityId new \<noteq> DBCustomer.entityId old
         \<and> DBCustomer.entityId new \<in> set (map DBCustomer.entityId (customers db))
      then Inl (IntegrityError ''UNIQUE constraint failed: customers.entityId'')
      else Inr (db\<lparr>customers := replace_customer new (customers db)\<rparr>))"

fun replace_order :: "'f DBSalesOrder \<Rightarrow> 'f DBSalesOrder list \<Rightarrow> 'f DBSalesOrder list" where
  "replace_order new [] = []"
| "replace_order new (row # rows) =
     (if DBSalesOrder.id_col row = DBSalesOrder.id_col new then new # rows
      else row # replace_order new rows)"

definition commit_order :: "'f database \<Rightarrow> 'f DBSalesOrder \<Rightarrow> 'f DBSalesOrder \<Rightarrow> error + 'f database" where
  "commit_order db old new =
     (if DBSalesOrder.tranId new \<noteq> DBSalesOrder.tranId old
         \<and> tranId_taken db (DBSalesOrder.tranId new)
      then Inl (IntegrityError ''UNIQUE constraint failed: sales_orders.tranId'')
      else Inr (db\<lparr>sales_orders := replace_order new (sales_orders db)\<rparr>))"

text \<open>\<^verbatim>\<open>db.delete(obj); db.commit()\<close>: a DELETE of the row with the object's key.\<close>

definition delete_customer_row :: "'f database \<Rightarrow> DBCustomer \<Rightarrow> 'f database" where
  "delete_customer_row db obj =
     db\<lparr>customers :=
          filter (\<lambda>row. DBCustomer.id_col row \<noteq> DBCustomer.id_col obj) (customers db)\<rparr>"

definition delete_order_row :: "'f database \<Rightarrow> 'f DBSalesOrder \<Rightarrow> 'f database" where
  "delete_order_row db obj =
     db\<lparr>sales_orders :=
          filter (\<lambda>row. DBSalesOrder.id_col row \<noteq> DBSalesOrder.id_col obj) (sales_orders db)\<rparr>"

text \<open>
  \<^verbatim>\<open>setattr(customer, key, value)\<close> for a string value: one of the string columns,
  or an attribute that is no column and is not stored.
\<close>

definition setattr_customer :: "DBCustomer \<Rightarrow> string \<times> string \<Rightarrow> DBCustomer" where
  "setattr_customer customer kv =
     (case kv of (key, v) \<Rightarrow>
        if key = ''entityId'' then customer\<lparr>DBCustomer.entityId := v\<rparr>
        else if key = ''companyName'' then customer\<lparr>DBCustomer.companyName := v\<rparr>
        else if key = ''email'' then customer\<lparr>DBCustomer.email := v\<rparr>
        else if key = ''status'' then customer\<lparr>DBCustomer.status := v\<rparr>
        else if key = ''dateCreated'' then customer\<lparr>DBCustomer.dateCreated := v\<rparr>
        else if key = ''lastUpdated'' then customer\<lparr>DBCustomer.lastUpdated := Some v\<rparr>
        else customer)"

subsection \<open>Responses\<close>

datatype 'f body =
    NoContent
  | Customer DBCustomer
  | CustomerList "DBCustomer list"
  | SalesOrder "'f DBSalesOrder"

type_synonym 'f response = "error + int \<times> 'f body"

subsection \<open>Customer endpoints\<close>

text \<open>\<^verbatim>\<open>now\<close> is \<^verbatim>\<open>time.strftime("%Y-%m-%dT%H:%M:%SZ")\<close> at the call.\<close>

text \<open>
  \<^verbatim>\<open>create_customer\<close> commits twice. \<^verbatim>\<open>create_customer_insert\<close> is the endpoint
  up to its first commit and refresh: the row is stored with an empty
  \<^verbatim>\<open>entityId\<close>. \<^verbatim>\<open>create_customer_patch\<close> is the rest: the derived
  \<^verbatim>\<open>entityId\<close> is assigned and committed, and the object returned. The second
  works on the database as it is when it runs.
\<close>

definition create_customer_insert ::
  "CustomerBase \<Rightarrow> string \<Rightarrow> 'f database \<Rightarrow> error + DBCustomer \<times> 'f database" where
  "create_customer_insert customer now db =
     (case construct ''DBCustomer'' DBCustomer_attributes (map fst (model_dump customer))
             [''dateCreated'', ''entityId''] of
        Inl e \<Rightarrow> Inl e
      | Inr _ \<Rightarrow>
          add_customer db
            \<lparr>DBCustomer.id_col = None,
             DBCustomer.entityId = '''',
             DBCustomer.companyName = CustomerBase.companyName customer,
             DBCustomer.email = CustomerBase.email customer,
             DBCustomer.status = CustomerBase.status customer,
             DBCustomer.dateCreated = now,
             DBCustomer.lastUpdated = None\<rparr>)"

definition create_customer_patch ::
  "DBCustomer \<Rightarrow> 'f database \<Rightarrow> 'f response \<times> 'f database" where
  "create_customer_patch db_customer db1 =
     (let db_customer' = db_customer
            \<lparr>DBCustomer.entityId := ''CUST-'' @ format_id (DBCustomer.id_col db_customer)\<rparr>
      in (case commit_customer db1 db_customer db_customer' of
            Inl e \<Rightarrow> (Inl e, db1)
          | Inr db2 \<Rightarrow> (Inr (201, Customer db_customer'), db2)))"

definition create_customer ::
  "CustomerBase \<Rightarrow> string \<Rightarrow> 'f database \<Rightarrow> 'f response \<times> 'f database" where
  "create_customer customer now db =
     (case create_customer_insert customer now db of
        Inl e \<Rightarrow> (Inl e, db)
      | Inr (db_customer, db1) \<Rightarrow> create_customer_patch db_customer db1)"

definition get_customer_collection :: "'f database \<Rightarrow> 'f response \<times> 'f database" where
  "get_customer_collection db = (Inr (200, CustomerList (customers db)), db)"

definition get_customer_by_id :: "int \<Rightarrow> 'f database \<Rightarrow> 'f response \<times> 'f database" where
  "get_customer_by_id customer_id db =
     (case query_customer db customer_id of
        Inl e \<Rightarrow> (Inl e, db)
      | Inr None \<Rightarrow> (Inl (HTTPException 404 ''Customer not found''), db)
      | Inr (Some customer) \<Rightarrow> (Inr (200, Customer customer), db))"

definition update_customer ::
  "int \<Rightarrow> CustomerBase \<Rightarrow> string \<Rightarrow> 'f database \<Rightarrow> 'f response \<times> 'f database" where
  "update_customer customer_id customer_update now db =
     (case query_customer db customer_id of
        Inl e \<Rightarrow> (Inl e, db)
      | Inr None \<Rightarrow> (Inl (HTTPException 404 ''Customer not found''), db)
      | Inr (Some customer) \<Rightarrow>
          let customer1 = customer\<lparr>DBCustomer.status := ''On Hold''\<rparr>;
              customer2 = customer1\<lparr>DBCustomer.lastUpdated := Some now\<rparr>;
              customer3 = foldl setattr_customer customer2
                            (model_dump_exclude_unset customer_update)
          in (case commit_customer db customer customer3 of
                Inl e \<Rightarrow> (Inl e, db)
              | Inr db' \<Rightarrow> (Inr (204, NoContent), db')))"

definition delete_customer :: "int \<Rightarrow> 'f database \<Rightarrow> 'f response \<times> 'f database" where
  "delete_customer customer_id db =
     (case query_customer db customer_id of
        Inl e \<Rightarrow> (Inl e, db)
      | Inr None \<Rightarrow> (Inl (HTTPException 404 ''Customer not found''), db)
      | Inr (Some customer) \<Rightarrow> (Inr (204, NoContent), delete_customer_row db customer))"

text \<open>
  The PUT route as the client reaches it: the body is validated against
  \<^verbatim>\<open>CustomerBase\<close> before \<^verbatim>\<open>update_customer\<close> runs.
\<close>

definition put_customer ::
  "int \<Rightarrow> json \<Rightarrow> string \<Rightarrow> 'f database \<Rightarrow> 'f response \<times> 'f database" where
  "put_customer customer_id body now db =
     (case validate_CustomerBase body of
        Inl e \<Rightarrow> (Inl e, db)
      | Inr customer_update \<Rightarrow> update_customer customer_id customer_update now db)"

subsection \<open>Sales order endpoints\<close>

text \<open>
  \<^verbatim>\<open>today\<close> is \<^verbatim>\<open>time.strftime("%Y-%m-%d")\<close> at the call. \<^verbatim>\<open>x or y\<close> is \<^verbatim>\<open>y\<close> when
  \<^verbatim>\<open>x\<close> is \<^verbatim>\<open>None\<close> or the empty string.
\<close>

definition trandate_or :: "string option \<Rightarrow> string \<Rightarrow> string" where
  "trandate_or t today = (case t of None \<Rightarrow> today | Some d \<Rightarrow> if d = '''' then today else d)"

definition create_sales_order ::
  "'f SalesOrderBase \<Rightarrow> string \<Rightarrow> 'f database \<Rightarrow> 'f response \<times> 'f database" where
  "create_sales_order order today db =
     (case query_customer db (SalesOrderBase.entity order) of
        Inl e \<Rightarrow> (Inl e, db)
      | Inr None \<Rightarrow>
          (Inl (HTTPException 400
                 (''Customer ID '' @ str_int (SalesOrderBase.entity order)
                    @ '' not found. Cannot create Sales Order.'')), db)
      | Inr (Some customer) \<Rightarrow>
          (case construct ''DBSalesOrder'' DBSalesOrder_attributes order_model_dump_keys
                  [''trandate''] of
             Inl e \<Rightarrow> (Inl e, db)
           | Inr _ \<Rightarrow>
               (case add_order db
                       \<lparr>DBSalesOrder.id_col = None,
                        DBSalesOrder.tranId = None,
                        DBSalesOrder.entity = SalesOrderBase.entity order,
                        DBSalesOrder.total = SalesOrderBase.total order,
                        DBSalesOrder.status = SalesOrderBase.status order,
                        DBSalesOrder.trandate = trandate_or (SalesOrderBase.trandate order) today,
                        DBSalesOrder.lastUpdated = None\<rparr> of
                  Inl e \<Rightarrow> (Inl e, db)
                | Inr (db_order, db1) \<Rightarrow>
                    let db_order' = db_order
                          \<lparr>DBSalesOrder.tranId :=
                             Some (''SO-'' @ format_id (DBSalesOrder.id_col db_order))\<rparr>
                    in (case commit_order db1 db_order db_order' of
                          Inl e \<Rightarrow> (Inl e, db1)
                        | Inr db2 \<Rightarrow> (Inr (201, SalesOrder db_order'), db2)))))"

definition update_sales_order ::
  "int \<Rightarrow> 'f SalesOrderBase \<Rightarrow> string \<Rightarrow> 'f database \<Rightarrow> 'f response \<times> 'f database" where
  "update_sales_order order_id order_update now db =
     (case query_order db order_id of
        Inl e \<Rightarrow> (Inl e, db)
      | Inr None \<Rightarrow> (Inl (HTTPException 404 ''Sales Order not found''), db)
      | Inr (Some order) \<Rightarrow>
          let order1 = order\<lparr>DBSalesOrder.status := ''Billed''\<rparr>;
              order2 = order1\<lparr>DBSalesOrder.lastUpdated := Some now\<rparr>
          in (case commit_order db order order2 of
                Inl e \<Rightarrow> (Inl e, db)
              | Inr db' \<Rightarrow> (Inr (204, NoContent), db')))"

definition delete_sales_order :: "int \<Rightarrow> 'f database \<Rightarrow> 'f response \<times> 'f database" where
  "delete_sales_order order_id db =
     (case query_order db order_id of
        Inl e \<Rightarrow> (Inl e, db)
      | Inr None \<Rightarrow> (Inl (HTTPException 404 ''Sales Order not found''), db)
      | Inr (Some order) \<Rightarrow> (Inr (204, NoContent), delete_order_row db order))"

subsection \<open>The service as a whole\<close>

datatype 'f request =
    PostCustomer CustomerBase string
  | GetCustomerCollection
  | GetCustomer int
  | PutCustomer int CustomerBase string
  | DeleteCustomer int
  | PostSalesOrder "'f SalesOrderBase" string
  | PutSalesOrder int "'f SalesOrderBase" string
  | DeleteSalesOrder int

fun handle :: "'f request \<Rightarrow> 'f database \<Rightarrow> 'f response \<times> 'f database" where
  "handle (PostCustomer customer now) db = create_customer customer now db"
| "handle GetCustomerCollection db = get_customer_collection db"
| "handle (GetCustomer customer_id) db = get_customer_by_id customer_id db"
| "handle (PutCustomer customer_id customer_update now) db =
     update_customer customer_id customer_update now db"
| "handle (DeleteCustomer customer_id) db = delete_customer customer_id db"
| "handle (PostSalesOrder order today) db = create_sales_order order today db"
| "handle (PutSalesOrder order_id order_update now) db =
     update_sales_order order_id order_update now db"
| "handle (DeleteSalesOrder order_id) db = delete_sales_order order_id db"

text \<open>
  Requests handled one after the other, none overlapping another:
  \<^verbatim>\<open>run reqs empty_database\<close> is the database they leave, from the freshly created
  tables on.
\<close>

fun run :: "'f request list \<Rightarrow> 'f database \<Rightarrow> 'f database" where
  "run [] db = db"
| "run (req # reqs) db = run reqs (snd (handle req db))"

text \<open>
  The endpoints are plain functions, which the server runs in worker threads, each
  with its own session: requests can overlap, and what one has committed the other
  reads. \<^verbatim>\<open>overlapped\<close> is one such schedule: a \<^verbatim>\<open>create_customer\<close> makes its first
  commit, another request is handled from start to end, and the
  \<^verbatim>\<open>create_customer\<close> goes on. It gives the response to the create, the response
  to the other request, and the database left.
\<close>

definition overlapped ::
  "CustomerBase \<Rightarrow> string \<Rightarrow> 'f request \<Rightarrow> 'f database
     \<Rightarrow> 'f response \<times> 'f response \<times> 'f database" where
  "overlapped customer now other db =
     (case create_customer_insert customer now db of
        Inl e \<Rightarrow> (Inl e, handle other db)
      | Inr (db_customer, db1) \<Rightarrow>
          (case handle other db1 of
             (other_response, db2) \<Rightarrow>
               (case create_customer_patch db_customer db2 of
                  (response, db3) \<Rightarrow> (response, other_response, db3))))"

text \<open>
  What holds of the customers table between requests: every row has its key, the
  keys are distinct, and \<^verbatim>\<open>entityId\<close> is the one derived from the key.
\<close>

definition customers_ok :: "'f database \<Rightarrow> bool" where
  "customers_ok db =
     (distinct (map DBCustomer.id_col (customers db)) \<and>
      list_all (\<lambda>row. DBCustomer.id_col row \<noteq> None \<and>
                  DBCustomer.entityId row = ''CUST-'' @ format_id (DBCustomer.id_col row))
        (customers db))"

subsection \<open>Example data\<close>

text \<open>The customers and the order of the scenario, and the databases they give.\<close>

definition acme :: CustomerBase where
  "acme = \<lparr>CustomerBase.companyName = ''Acme'', CustomerBase.email = ''a@acme.com'',
            CustomerBase.status = ''Active'',
            CustomerBase.fields_set = [''companyName'', ''email'']\<rparr>"

definition globex :: CustomerBase where
  "globex = \<lparr>CustomerBase.companyName = ''Globex'', CustomerBase.email = ''g@globex.com'',
              CustomerBase.status = ''Prospect'',
              CustomerBase.fields_set = [''companyName'', ''email'', ''status'']\<rparr>"

definition acme_row :: DBCustomer where
  "acme_row = \<lparr>DBCustomer.id_col = Some 1, DBCustomer.entityId = ''CUST-1'',
                DBCustomer.companyName = ''Acme'', DBCustomer.email = ''a@acme.com'',
                DBCustomer.status = ''Active'',
                DBCustomer.dateCreated = ''2026-11-03T09:00:00Z'',
                DBCustomer.lastUpdated = None\<rparr>"

definition first_order :: "real SalesOrderBase" where
  "first_order = \<lparr>SalesOrderBase.entity = 1, SalesOrderBase.total = 99.5,
                   SalesOrderBase.status = ''Pending Fulfillment'',
                   SalesOrderBase.trandate = None\<rparr>"

definition order_row :: "real DBSalesOrder" where
  "order_row = \<lparr>DBSalesOrder.id_col = Some 1, DBSalesOrder.tranId = Some ''SO-1'',
                 DBSalesOrder.entity = 1, DBSalesOrder.total = 99.5,
                 DBSalesOrder.status = ''Pending Fulfillment'',
                 DBSalesOrder.trandate = ''2026-11-03'',
                 DBSalesOrder.lastUpdated = None\<rparr>"

definition second_order_row :: "real DBSalesOrder" where
  "second_order_row = \<lparr>DBSalesOrder.id_col = Some 2, DBSalesOrder.tranId = Some ''SO-2'',
                 DBSalesOrder.entity = 1, DBSalesOrder.total = 12,
                 DBSalesOrder.status = ''Pending Fulfillment'',
                 DBSalesOrder.trandate = ''2026-11-03'',
                 DBSalesOrder.lastUpdated = None\<rparr>"

definition acme_db :: "real database" where
  "acme_db = \<lparr>customers = [acme_row], sales_orders = []\<rparr>"

definition orders_db :: "real database" where
  "orders_db = \<lparr>customers = [acme_row], sales_orders = [order_row, second_order_row]\<rparr>"

text \<open>
  The row and the database after the first commit of creating \<^verbatim>\<open>acme\<close> in the
  empty tables.
\<close>

definition pending_row :: DBCustomer where
  "pending_row = acme_row\<lparr>DBCustomer.entityId := ''''\<rparr>"

definition pending_db :: "real database" where
  "pending_db = \<lparr>customers = [pending_row], sales_orders = []\<rparr>"

text \<open>The first integer above the signed 64-bit range.\<close>

definition too_big :: int where
  "too_big = 9223372036854775808"

section \<open>Properties\<close>

subsection \<open>Decimal numerals determine the integer\<close>

lemma digit_val_all: "\<forall>d \<in> set [0..<10]. digit_val (digit_char d) = d \<and> digit_char d \<noteq> CHR ''-''"
  by code_simp

lemma digit_val_char: "d < 10 \<Longrightarrow> digit_val (digit_char d) = d"
  using digit_val_all by simp

lemma digit_char_not_minus: "d < 10 \<Longrightarrow> digit_char d \<noteq> CHR ''-''"
  using digit_val_all by simp

lemma digits_value: "foldl (\<lambda>a c. 10 * a + digit_val c) 0 (digits n) = n"
proof (induction n rule: digits.induct)
  case (1 n)
  show ?case
  proof (cases "n < 10")
    case True
    then show ?thesis by (simp add: digits.simps [of n] digit_val_char)
  next
    case False
    with 1 show ?thesis by (simp add: digits.simps [of n] digit_val_char)
  qed
qed

lemma digits_inject: "digits m = digits n \<Longrightarrow> m = n"
  by (metis digits_value)

lemma digits_no_minus: "CHR ''-'' \<notin> set (digits n)"
proof (induction n rule: digits.induct)
  case (1 n)
  show ?case
  proof (cases "n < 10")
    case True
    then show ?thesis using digit_char_not_minus [of n] by (simp add: digits.simps [of n])
  next
    case False
    with 1 digit_char_not_minus [of "n mod 10"] show ?thesis by (simp add: digits.simps [of n])
  qed
qed

lemma digits_not_Nil: "digits n \<noteq> []"
  by (simp add: digits.simps [of n])

lemma str_int_inject: "str_int i = str_int j \<Longrightarrow> i = j"
proof -
  assume eq: "str_int i = str_int j"
  consider "i < 0" "j < 0" | "i < 0" "\<not> j < 0" | "\<not> i < 0" "j < 0" | "\<not> i < 0" "\<not> j < 0"
    by blast
  then show ?thesis
  proof cases
    case 1
    with eq have "nat (- i) = nat (- j)" by (simp add: str_int_def digits_inject)
    with 1 show ?thesis by simp
  next
    case 2
    with eq have "CHR ''-'' \<in> set (digits (nat j))"
      by (metis str_int_def list.set_intros(1))
    then show ?thesis using digits_no_minus by blast
  next
    case 3
    with eq have "CHR ''-'' \<in> set (digits (nat i))"
      by (metis str_int_def list.set_intros(1))
    then show ?thesis using digits_no_minus by blast
  next
    case 4
    with eq have "nat i = nat j" by (simp add: str_int_def digits_inject)
    with 4 show ?thesis by simp
  qed
qed

subsection \<open>Looking a row up\<close>

lemma query_customer_Some:
  "query_customer db customer_id = Inr (Some c) \<Longrightarrow>
   c \<in> set (customers db) \<and> DBCustomer.id_col c = Some customer_id \<and>
   in_int64 customer_id \<and> select_customer db customer_id = Some c"
  by (auto simp: query_customer_def select_customer_def find_Some_iff split: if_splits)

lemma query_order_Some:
  "query_order db order_id = Inr (Some order) \<Longrightarrow>
   order \<in> set (sales_orders db) \<and> DBSalesOrder.id_col order = Some order_id \<and>
   in_int64 order_id \<and> select_order db order_id = Some order"
  by (auto simp: query_order_def select_order_def find_Some_iff split: if_splits)

lemma select_customer_None:
  "(select_customer db customer_id = None) =
   (Some customer_id \<notin> DBCustomer.id_col ` set (customers db))"
  by (force simp: select_customer_def find_None_iff image_iff)

lemma select_order_None:
  "(select_order db order_id = None) =
   (Some order_id \<notin> DBSalesOrder.id_col ` set (sales_orders db))"
  by (force simp: select_order_def find_None_iff image_iff)

lemma query_customer_None:
  "in_int64 customer_id \<Longrightarrow>
   (query_customer db customer_id = Inr None) =
   (Some customer_id \<notin> DBCustomer.id_col ` set (customers db))"
  by (simp add: query_customer_def select_customer_None)

lemma query_order_None:
  "in_int64 order_id \<Longrightarrow>
   (query_order db order_id = Inr None) =
   (Some order_id \<notin> DBSalesOrder.id_col ` set (sales_orders db))"
  by (simp add: query_order_def select_order_None)

lemma query_customer_present:
  "in_int64 customer_id \<Longrightarrow>
   Some customer_id \<in> DBCustomer.id_col ` set (customers db) \<Longrightarrow>
   \<exists>c. query_customer db customer_id = Inr (Some c)"
  using select_customer_None [of db customer_id] by (auto simp: query_customer_def)

lemma query_order_present:
  "in_int64 order_id \<Longrightarrow>
   Some order_id \<in> DBSalesOrder.id_col ` set (sales_orders db) \<Longrightarrow>
   \<exists>order. query_order db order_id = Inr (Some order)"
  using select_order_None [of db order_id] by (auto simp: query_order_def)

lemma query_customer_overflow:
  "\<not> in_int64 customer_id \<Longrightarrow> query_customer db customer_id = Inl int_overflow"
  by (simp add: query_customer_def)

lemma query_order_overflow:
  "\<not> in_int64 order_id \<Longrightarrow> query_order db order_id = Inl int_overflow"
  by (simp add: query_order_def)

lemma too_big_overflow: "\<not> in_int64 too_big"
  by (simp add: in_int64_def too_big_def)

subsection \<open>The customers table between requests\<close>

lemma next_rowid_fresh: "i \<in> set keys \<Longrightarrow> i < next_rowid keys"
proof -
  assume mem: "i \<in> set keys"
  then have "keys \<noteq> []" by auto
  moreover from mem have "i \<le> Max (set keys)" by simp
  ultimately show ?thesis by (simp add: next_rowid_def)
qed

lemma map_filter_mem: "Some i \<in> set (map f xs) \<Longrightarrow> i \<in> set (List.map_filter f xs)"
  by (induction xs) (auto split: option.splits)

lemma next_customer_id_fresh:
  "Some (next_rowid (customer_ids db)) \<notin> set (map DBCustomer.id_col (customers db))"
proof
  assume "Some (next_rowid (customer_ids db)) \<in> set (map DBCustomer.id_col (customers db))"
  then have "next_rowid (customer_ids db) \<in> set (customer_ids db)"
    unfolding customer_ids_def by (rule map_filter_mem)
  then show False using next_rowid_fresh by blast
qed

lemma replace_customer_append:
  "DBCustomer.id_col new \<notin> set (map DBCustomer.id_col rows) \<Longrightarrow>
   DBCustomer.id_col row = DBCustomer.id_col new \<Longrightarrow>
   replace_customer new (rows @ [row]) = rows @ [new]"
  by (induction rows) auto

lemma construct_customer:
  "construct ''DBCustomer'' DBCustomer_attributes (map fst (model_dump customer))
     [''dateCreated'', ''entityId''] = Inr ()"
  by (simp add: construct_def model_dump_def DBCustomer_attributes_def)

lemma customers_ok_entityId:
  "customers_ok db \<Longrightarrow> row \<in> set (customers db) \<Longrightarrow>
   \<exists>i. DBCustomer.id_col row = Some i \<and> DBCustomer.entityId row = ''CUST-'' @ str_int i"
  by (auto simp: customers_ok_def list_all_iff)

text \<open>
  The first commit of \<^verbatim>\<open>create_customer\<close> stores the row with an empty
  \<^verbatim>\<open>entityId\<close>.
\<close>

lemma create_customer_first_commit:
  assumes "customers_ok db"
  shows "\<exists>row db1.
           create_customer_insert customer now db = Inr (row, db1) \<and>
           row \<in> set (customers db1) \<and> DBCustomer.entityId row = ''''"
proof -
  have "'''' \<notin> set (map DBCustomer.entityId (customers db))"
    using customers_ok_entityId [OF assms] by fastforce
  then show ?thesis
    by (simp add: create_customer_insert_def construct_customer add_customer_def Let_def)
qed

lemma create_customer_ok:
  assumes ok: "customers_ok db"
  shows "create_customer customer now db =
    (Inr (201, Customer
       \<lparr>DBCustomer.id_col = Some (next_rowid (customer_ids db)),
        DBCustomer.entityId = ''CUST-'' @ str_int (next_rowid (customer_ids db)),
        DBCustomer.companyName = CustomerBase.companyName customer,
        DBCustomer.email = CustomerBase.email customer,
        DBCustomer.status = CustomerBase.status customer,
        DBCustomer.dateCreated = now,
        DBCustomer.lastUpdated = None\<rparr>),
     db\<lparr>customers := customers db @
       [\<lparr>DBCustomer.id_col = Some (next_rowid (customer_ids db)),
        DBCustomer.entityId = ''CUST-'' @ str_int (next_rowid (customer_ids db)),
        DBCustomer.companyName = CustomerBase.companyName customer,
        DBCustomer.email = CustomerBase.email customer,
        DBCustomer.status = CustomerBase.status customer,
        DBCustomer.dateCreated = now,
        DBCustomer.lastUpdated = None\<rparr>]\<rparr>)"
proof -
  let ?n = "next_rowid (customer_ids db)"
  have empty_free: "'''' \<notin> set (map DBCustomer.entityId (customers db))"
    using customers_ok_entityId [OF ok] by fastforce
  have derived_free: "''CUST-'' @ str_int ?n \<notin> set (map DBCustomer.entityId (customers db))"
  proof
    assume "''CUST-'' @ str_int ?n \<in> set (map DBCustomer.entityId (customers db))"
    then obtain row where row: "row \<in> set (customers db)"
      and eq: "DBCustomer.entityId row = ''CUST-'' @ str_int ?n" by auto
    from customers_ok_entityId [OF ok row] obtain i
      where i: "DBCustomer.id_col row = Some i" "DBCustomer.entityId row = ''CUST-'' @ str_int i"
      by blast
    with eq have "i = ?n" using str_int_inject by simp
    with i row have "Some ?n \<in> set (map DBCustomer.id_col (customers db))" by force
    then show False using next_customer_id_fresh by blast
  qed
  show ?thesis
    using empty_free derived_free next_customer_id_fresh [of db]
    by (simp add: create_customer_def create_customer_insert_def create_customer_patch_def
        construct_customer add_customer_def Let_def commit_customer_def
        replace_customer_append)
qed

lemma setattr_payload_keeps:
  "DBCustomer.id_col (foldl setattr_customer c (model_dump_exclude_unset u)) = DBCustomer.id_col c \<and>
   DBCustomer.entityId (foldl setattr_customer c (model_dump_exclude_unset u)) = DBCustomer.entityId c \<and>
   DBCustomer.dateCreated (foldl setattr_customer c (model_dump_exclude_unset u)) = DBCustomer.dateCreated c \<and>
   DBCustomer.lastUpdated (foldl setattr_customer c (model_dump_exclude_unset u)) = DBCustomer.lastUpdated c"
  by (simp add: model_dump_exclude_unset_def model_dump_def setattr_customer_def)

lemma update_customer_found:
  assumes "query_customer db customer_id = Inr (Some c)"
  shows "update_customer customer_id u now db =
    (Inr (204, NoContent),
     db\<lparr>customers := replace_customer
        (foldl setattr_customer
           (c\<lparr>DBCustomer.status := ''On Hold'', DBCustomer.lastUpdated := Some now\<rparr>)
           (model_dump_exclude_unset u))
        (customers db)\<rparr>)"
  using assms
  by (simp add: update_customer_def Let_def commit_customer_def setattr_payload_keeps)

lemma replace_customer_ids:
  "map DBCustomer.id_col (replace_customer new rows) = map DBCustomer.id_col rows"
  by (induction rows) auto

lemma replace_customer_set:
  "set (replace_customer new rows) \<subseteq> insert new (set rows)"
  by (induction rows) auto

lemma customers_ok_create:
  assumes "customers_ok db"
  shows "customers_ok (snd (create_customer customer now db))"
  using assms next_customer_id_fresh [of db]
  by (simp add: create_customer_ok customers_ok_def)

lemma customers_ok_update:
  assumes ok: "customers_ok db"
  shows "customers_ok (snd (update_customer customer_id u now db))"
proof (cases "query_customer db customer_id")
  case (Inl e)
  with ok show ?thesis by (simp add: update_customer_def)
next
  case (Inr found)
  show ?thesis
  proof (cases found)
    case None
    with Inr ok show ?thesis by (simp add: update_customer_def)
  next
    case (Some c)
    with Inr have q: "query_customer db customer_id = Inr (Some c)" by simp
    let ?new = "foldl setattr_customer
           (c\<lparr>DBCustomer.status := ''On Hold'', DBCustomer.lastUpdated := Some now\<rparr>)
           (model_dump_exclude_unset u)"
    from query_customer_Some [OF q] ok
    have "DBCustomer.id_col c \<noteq> None \<and>
        DBCustomer.entityId c = ''CUST-'' @ format_id (DBCustomer.id_col c)"
      by (auto simp: customers_ok_def list_all_iff)
    then have new: "DBCustomer.id_col ?new \<noteq> None \<and>
        DBCustomer.entityId ?new = ''CUST-'' @ format_id (DBCustomer.id_col ?new)"
      by (simp add: setattr_payload_keeps)
    show ?thesis
      using ok new replace_customer_set [of ?new "customers db"]
      by (auto simp: update_customer_found [OF q] customers_ok_def replace_customer_ids
          list_all_iff)
  qed
qed

lemma customers_ok_delete:
  "customers_ok db \<Longrightarrow> customers_ok (snd (delete_customer customer_id db))"
  by (auto simp: delete_customer_def delete_customer_row_def customers_ok_def
      distinct_map_filter list_all_iff split: option.splits sum.splits)

lemma create_sales_order_customers:
  "customers (snd (create_sales_order order today db)) = customers db"
  by (auto simp: create_sales_order_def add_order_def commit_order_def Let_def
      split: option.splits sum.splits if_splits)

lemma update_sales_order_customers:
  "customers (snd (update_sales_order order_id u now db)) = customers db"
  by (auto simp: update_sales_order_def commit_order_def Let_def
      split: option.splits sum.splits if_splits)

lemma delete_sales_order_customers:
  "customers (snd (delete_sales_order order_id db)) = customers db"
  by (auto simp: delete_sales_order_def delete_order_row_def split: option.splits sum.splits)

lemma customers_ok_cong:
  "customers db' = customers db \<Longrightarrow> customers_ok db \<Longrightarrow> customers_ok db'"
  by (simp add: customers_ok_def)

lemma customers_ok_handle:
  "customers_ok db \<Longrightarrow> customers_ok (snd (handle req db))"
proof (cases req)
  case (PostCustomer customer now)
  assume "customers_ok db"
  with PostCustomer show ?thesis by (simp add: customers_ok_create)
next
  case GetCustomerCollection
  assume "customers_ok db"
  with GetCustomerCollection show ?thesis by (simp add: get_customer_collection_def)
next
  case (GetCustomer customer_id)
  assume "customers_ok db"
  with GetCustomer show ?thesis
    by (simp add: get_customer_by_id_def split: option.splits sum.splits)
next
  case (PutCustomer customer_id u now)
  assume "customers_ok db"
  with PutCustomer show ?thesis by (simp add: customers_ok_update)
next
  case (DeleteCustomer customer_id)
  assume "customers_ok db"
  with DeleteCustomer show ?thesis by (simp add: customers_ok_delete)
next
  case (PostSalesOrder order today)
  assume "customers_ok db"
  with PostSalesOrder show ?thesis
    using customers_ok_cong [OF create_sales_order_customers] by simp
next
  case (PutSalesOrder order_id u now)
  assume "customers_ok db"
  with PutSalesOrder show ?thesis
    using customers_ok_cong [OF update_sales_order_customers] by simp
next
  case (DeleteSalesOrder order_id)
  assume "customers_ok db"
  with DeleteSalesOrder show ?thesis
    using customers_ok_cong [OF delete_sales_order_customers] by simp
qed

lemma customers_ok_run: "customers_ok db \<Longrightarrow> customers_ok (run reqs db)"
  by (induction reqs arbitrary: db) (simp_all add: customers_ok_handle)

lemma customers_ok_empty: "customers_ok empty_database"
  by (simp add: customers_ok_def empty_database_def)

subsection \<open>Replacing and deleting a row\<close>

lemma find_replace_customer:
  "find (\<lambda>row. DBCustomer.id_col row = k) rows = Some c \<Longrightarrow> DBCustomer.id_col new = k \<Longrightarrow>
   find (\<lambda>row. DBCustomer.id_col row = k) (replace_customer new rows) = Some new"
  by (induction rows) (auto split: if_splits)

lemma find_replace_order:
  "find (\<lambda>row. DBSalesOrder.id_col row = k) rows = Some c \<Longrightarrow> DBSalesOrder.id_col new = k \<Longrightarrow>
   find (\<lambda>row. DBSalesOrder.id_col row = k) (replace_order new rows) = Some new"
  by (induction rows) (auto split: if_splits)

lemma query_replace_customer:
  assumes "query_customer db customer_id = Inr (Some c)"
    and "DBCustomer.id_col new = Some customer_id"
  shows "query_customer (db\<lparr>customers := replace_customer new (customers db)\<rparr>) customer_id
           = Inr (Some new)"
proof -
  from query_customer_Some [OF assms(1)]
  have "in_int64 customer_id"
    and "find (\<lambda>row. DBCustomer.id_col row = Some customer_id) (customers db) = Some c"
    by (simp_all add: select_customer_def)
  then show ?thesis
    using find_replace_customer [OF _ assms(2)]
    by (simp add: query_customer_def select_customer_def)
qed

lemma query_replace_order:
  assumes "query_order db order_id = Inr (Some c)"
    and "DBSalesOrder.id_col new = Some order_id"
  shows "query_order (db\<lparr>sales_orders := replace_order new (sales_orders db)\<rparr>) order_id
           = Inr (Some new)"
proof -
  from query_order_Some [OF assms(1)]
  have "in_int64 order_id"
    and "find (\<lambda>row. DBSalesOrder.id_col row = Some order_id) (sales_orders db) = Some c"
    by (simp_all add: select_order_def)
  then show ?thesis
    using find_replace_order [OF _ assms(2)]
    by (simp add: query_order_def select_order_def)
qed

lemma replace_order_split:
  "find (\<lambda>row. DBSalesOrder.id_col row = k) rows = Some c \<Longrightarrow> DBSalesOrder.id_col new = k \<Longrightarrow>
   \<exists>before after. rows = before @ c # after \<and>
      (\<forall>row \<in> set before. DBSalesOrder.id_col row \<noteq> k) \<and>
      replace_order new rows = before @ new # after"
proof (induction rows)
  case Nil
  then show ?case by simp
next
  case (Cons row rows)
  show ?case
  proof (cases "DBSalesOrder.id_col row = k")
    case True
    with Cons.prems have "row # rows = [] @ c # rows \<and>
      (\<forall>r \<in> set []. DBSalesOrder.id_col r \<noteq> k) \<and>
      replace_order new (row # rows) = [] @ new # rows" by simp
    then show ?thesis by blast
  next
    case False
    with Cons obtain before after where
      "rows = before @ c # after" "\<forall>r \<in> set before. DBSalesOrder.id_col r \<noteq> k"
      "replace_order new rows = before @ new # after" by auto
    with False Cons.prems have "row # rows = (row # before) @ c # after \<and>
      (\<forall>r \<in> set (row # before). DBSalesOrder.id_col r \<noteq> k) \<and>
      replace_order new (row # rows) = (row # before) @ new # after" by simp
    then show ?thesis by blast
  qed
qed

lemma update_sales_order_found:
  assumes "query_order db order_id = Inr (Some order)"
  shows "update_sales_order order_id u now db =
    (Inr (204, NoContent),
     db\<lparr>sales_orders := replace_order
        (order\<lparr>DBSalesOrder.status := ''Billed'', DBSalesOrder.lastUpdated := Some now\<rparr>)
        (sales_orders db)\<rparr>)"
  using assms by (simp add: update_sales_order_def Let_def commit_order_def)

lemma delete_customer_found:
  "query_customer db customer_id = Inr (Some customer) \<Longrightarrow>
   delete_customer customer_id db =
     (Inr (204, NoContent),
      db\<lparr>customers :=
           filter (\<lambda>row. DBCustomer.id_col row \<noteq> Some customer_id) (customers db)\<rparr>)"
  by (simp add: delete_customer_def delete_customer_row_def query_customer_Some)

lemma delete_sales_order_found:
  "query_order db order_id = Inr (Some order) \<Longrightarrow>
   delete_sales_order order_id db =
     (Inr (204, NoContent),
      db\<lparr>sales_orders :=
           filter (\<lambda>row. DBSalesOrder.id_col row \<noteq> Some order_id) (sales_orders db)\<rparr>)"
  by (simp add: delete_sales_order_def delete_order_row_def query_order_Some)

lemma find_fresh_append:
  "\<forall>x \<in> set xs. \<not> P x \<Longrightarrow> find P (xs @ ys) = find P ys"
  by (induction xs) auto

subsection \<open>The payload of a customer update\<close>

lemma setattr_payload_status:
  "DBCustomer.status (foldl setattr_customer c (model_dump_exclude_unset u)) =
     (if ''status'' \<in> set (fields_set u) then CustomerBase.status u else DBCustomer.status c)"
  by (simp add: model_dump_exclude_unset_def model_dump_def setattr_customer_def)

lemma setattr_payload_names:
  "DBCustomer.companyName (foldl setattr_customer c (model_dump_exclude_unset u)) =
     (if ''companyName'' \<in> set (fields_set u) then CustomerBase.companyName u
      else DBCustomer.companyName c) \<and>
   DBCustomer.email (foldl setattr_customer c (model_dump_exclude_unset u)) =
     (if ''email'' \<in> set (fields_set u) then CustomerBase.email u else DBCustomer.email c)"
  by (simp add: model_dump_exclude_unset_def model_dump_def setattr_customer_def)

lemma validate_CustomerBase_Inr:
  "validate_CustomerBase body = Inr u \<Longrightarrow>
   \<exists>members. body = JObject members \<and>
     json_get members ''companyName'' = Some (JString (CustomerBase.companyName u)) \<and>
     json_get members ''email'' = Some (JString (CustomerBase.email u)) \<and>
     ''companyName'' \<in> set (fields_set u) \<and> ''email'' \<in> set (fields_set u)"
  by (auto simp: validate_CustomerBase_def split: json.splits option.splits)

lemma validate_CustomerBase_missing:
  "json_get members ''companyName'' = None \<or> json_get members ''email'' = None \<Longrightarrow>
   validate_CustomerBase (JObject members) = Inl RequestValidationError"
  by (auto simp: validate_CustomerBase_def split: json.splits option.splits)

subsection \<open>The constructor call of a sales order\<close>

lemma construct_order:
  "construct ''DBSalesOrder'' DBSalesOrder_attributes order_model_dump_keys [''trandate'']
     = Inl (TypeError (''getsuiteAPI.DBSalesOrder() got multiple values for keyword argument ''
              @ quoted ''trandate''))"
  by (simp add: construct_def order_model_dump_keys_def)

lemma create_sales_order_raises:
  "query_customer db (SalesOrderBase.entity order) = Inr (Some customer) \<Longrightarrow>
   create_sales_order order today db =
     (Inl (TypeError (''getsuiteAPI.DBSalesOrder() got multiple values for keyword argument ''
              @ quoted ''trandate'')), db)"
  by (simp add: create_sales_order_def construct_order)

subsection \<open>Evaluating the endpoints on the example data\<close>

lemmas evaluate =
  create_customer_def create_customer_insert_def create_customer_patch_def
  construct_def model_dump_def DBCustomer_attributes_def
  add_customer_def empty_database_def customer_ids_def next_rowid_def commit_customer_def
  Let_def str_int_def digits.simps digit_char_def
  query_customer_def query_order_def select_customer_def select_order_def in_int64_def
  acme_def globex_def acme_row_def first_order_def order_row_def second_order_row_def
  acme_db_def orders_db_def pending_row_def pending_db_def too_big_def

lemma acme_db_run:
  "run [PostCustomer acme ''2026-11-03T09:00:00Z''] empty_database = acme_db"
  by (simp add: evaluate)

lemma pending_db_insert:
  "create_customer_insert acme ''2026-11-03T09:00:00Z'' empty_database
     = Inr (pending_row, pending_db)"
  by (simp add: evaluate)

section \<open>The claims\<close>

text \<open>
  C1. What \<^verbatim>\<open>create_sales_order\<close> does when the customer exists, at the order of the
  scenario (customer 1 stored, \<^verbatim>\<open>{entity: 1, total: 99.5}\<close>): the call
  \<^verbatim>\<open>DBSalesOrder(**order.model_dump(), trandate=...)\<close> passes \<^verbatim>\<open>trandate\<close> twice,
  Python raises \<^verbatim>\<open>TypeError\<close>, the client gets 500 and no row is written.
\<close>

theorem create_sales_order_duplicate_keyword:
  "query_customer acme_db (SalesOrderBase.entity first_order) = Inr (Some acme_row) \<and>
   create_sales_order first_order ''2026-11-03'' acme_db
     = (Inl (TypeError
              (''getsuiteAPI.DBSalesOrder() got multiple values for keyword argument ''
                 @ quoted ''trandate'')), acme_db) \<and>
   http_status (TypeError
              (''getsuiteAPI.DBSalesOrder() got multiple values for keyword argument ''
                 @ quoted ''trandate'')) = 500"
  by (simp add: create_sales_order_def order_model_dump_keys_def evaluate)

text \<open>
  C2, as the claim states it, fails when requests overlap. While creating
  \<^verbatim>\<open>acme\<close> in the empty tables is between its two commits, a request for the
  customer list is answered with a row whose \<^verbatim>\<open>entityId\<close> is empty, and a second
  create is refused by the unique index on \<^verbatim>\<open>entityId\<close> (an unhandled
  \<^verbatim>\<open>IntegrityError\<close>, 500) instead of answering 201.
\<close>

theorem create_customer_overlap_counterexample:
  "overlapped acme ''2026-11-03T09:00:00Z'' GetCustomerCollection
     (empty_database :: real database)
     = (Inr (201, Customer acme_row), Inr (200, CustomerList [pending_row]), acme_db) \<and>
   DBCustomer.entityId pending_row = '''' \<and>
   overlapped acme ''2026-11-03T09:00:00Z'' (PostCustomer globex ''2026-11-03T09:00:00Z'')
     (empty_database :: real database)
     = (Inr (201, Customer acme_row),
        Inl (IntegrityError ''UNIQUE constraint failed: customers.entityId''), acme_db) \<and>
   http_status (IntegrityError ''UNIQUE constraint failed: customers.entityId'') = 500"
  by (simp add: overlapped_def get_customer_collection_def evaluate)

text \<open>
  C2, amended to requests that do not overlap. In the database that requests
  handled one after the other leave, from the freshly created tables on, every
  customer row has the \<^verbatim>\<open>entityId\<close> derived from its key, which is not empty; and
  creating a customer there answers 201 with a record whose \<^verbatim>\<open>entityId\<close> is
  \<^verbatim>\<open>"CUST-"\<close> followed by the key the table assigned, that record being the row
  stored under the key.
\<close>

theorem create_customer_entityId:
  fixes reqs :: "'f request list"
  shows "(\<forall>row \<in> set (customers (run reqs empty_database)).
            DBCustomer.entityId row \<noteq> '''' \<and>
            (\<exists>i. DBCustomer.id_col row = Some i \<and>
                 DBCustomer.entityId row = ''CUST-'' @ str_int i)) \<and>
         (\<exists>row db'.
            create_customer customer now (run reqs empty_database)
              = (Inr (201, Customer row), db') \<and>
            DBCustomer.id_col row = Some (next_rowid (customer_ids (run reqs empty_database))) \<and>
            DBCustomer.entityId row
              = ''CUST-'' @ str_int (next_rowid (customer_ids (run reqs empty_database))) \<and>
            select_customer db' (next_rowid (customer_ids (run reqs empty_database)))
              = Some row)"
proof -
  let ?db = "run reqs (empty_database :: 'f database)"
  have ok: "customers_ok ?db"
    by (rule customers_ok_run [OF customers_ok_empty])
  have rows: "\<forall>row \<in> set (customers ?db).
            DBCustomer.entityId row \<noteq> '''' \<and>
            (\<exists>i. DBCustomer.id_col row = Some i \<and>
                 DBCustomer.entityId row = ''CUST-'' @ str_int i)"
    using customers_ok_entityId [OF ok] by fastforce
  have fresh: "\<forall>row \<in> set (customers ?db).
      \<not> DBCustomer.id_col row = Some (next_rowid (customer_ids ?db))"
    using next_customer_id_fresh [of ?db] by force
  have "select_customer (snd (create_customer customer now ?db)) (next_rowid (customer_ids ?db))
      = (case fst (create_customer customer now ?db) of Inr (code, Customer row) \<Rightarrow> Some row)"
    by (simp add: create_customer_ok [OF ok] select_customer_def find_fresh_append [OF fresh])
  then have "\<exists>row db'.
            create_customer customer now ?db = (Inr (201, Customer row), db') \<and>
            DBCustomer.id_col row = Some (next_rowid (customer_ids ?db)) \<and>
            DBCustomer.entityId row = ''CUST-'' @ str_int (next_rowid (customer_ids ?db)) \<and>
            select_customer db' (next_rowid (customer_ids ?db)) = Some row"
    by (simp add: create_customer_ok [OF ok])
  with rows show ?thesis by blast
qed

theorem create_customer_entityId_witness:
  "customers (run [PostCustomer acme ''2026-11-03T09:00:00Z''] (empty_database :: real database))
     = [acme_row] \<and>
   DBCustomer.entityId acme_row = ''CUST-1'' \<and>
   fst (create_customer globex ''2026-11-03T09:30:00Z''
          (run [PostCustomer acme ''2026-11-03T09:00:00Z''] (empty_database :: real database)))
     = Inr (201, Customer
         \<lparr>DBCustomer.id_col = Some 2, DBCustomer.entityId = ''CUST-2'',
          DBCustomer.companyName = ''Globex'', DBCustomer.email = ''g@globex.com'',
          DBCustomer.status = ''Prospect'',
          DBCustomer.dateCreated = ''2026-11-03T09:30:00Z'',
          DBCustomer.lastUpdated = None\<rparr>)"
  using create_customer_entityId
    [of "[PostCustomer acme ''2026-11-03T09:00:00Z'']" globex "''2026-11-03T09:30:00Z''"]
  by (simp add: evaluate)

text \<open>
  C3. Updating a customer whose id exists answers 204 with no body. The row then
  stored under the id has the payload's \<^verbatim>\<open>status\<close> when the payload set that field
  and \<^verbatim>\<open>"On Hold"\<close> when it did not, and its \<^verbatim>\<open>lastUpdated\<close> is the time of the
  call.
\<close>

theorem update_customer_status:
  assumes "query_customer db customer_id = Inr (Some customer)"
  shows "\<exists>db' customer'.
           update_customer customer_id customer_update now db = (Inr (204, NoContent), db') \<and>
           query_customer db' customer_id = Inr (Some customer') \<and>
           DBCustomer.status customer' =
             (if ''status'' \<in> set (fields_set customer_update)
              then CustomerBase.status customer_update else ''On Hold'') \<and>
           DBCustomer.lastUpdated customer' = Some now"
proof -
  let ?new = "foldl setattr_customer
           (customer\<lparr>DBCustomer.status := ''On Hold'', DBCustomer.lastUpdated := Some now\<rparr>)
           (model_dump_exclude_unset customer_update)"
  from assms have key: "DBCustomer.id_col ?new = Some customer_id"
    by (simp add: setattr_payload_keeps query_customer_Some)
  have stored:
    "query_customer (db\<lparr>customers := replace_customer ?new (customers db)\<rparr>) customer_id
       = Inr (Some ?new)"
    by (rule query_replace_customer [OF assms key])
  have "DBCustomer.status ?new =
             (if ''status'' \<in> set (fields_set customer_update)
              then CustomerBase.status customer_update else ''On Hold'')"
    by (simp add: setattr_payload_status)
  moreover have "DBCustomer.lastUpdated ?new = Some now"
    by (simp add: setattr_payload_keeps)
  ultimately show ?thesis
    using stored update_customer_found [OF assms] by blast
qed

theorem update_customer_status_witness:
  "query_customer acme_db 1 = Inr (Some acme_row) \<and>
   (\<exists>db' customer'.
      update_customer 1 acme ''2026-11-03T10:00:00Z'' acme_db = (Inr (204, NoContent), db') \<and>
      query_customer db' 1 = Inr (Some customer') \<and>
      DBCustomer.status customer' = ''On Hold'' \<and>
      DBCustomer.lastUpdated customer' = Some ''2026-11-03T10:00:00Z'') \<and>
   (\<exists>db' customer'.
      update_customer 1 globex ''2026-11-03T10:00:00Z'' acme_db = (Inr (204, NoContent), db') \<and>
      query_customer db' 1 = Inr (Some customer') \<and>
      DBCustomer.status customer' = ''Prospect'' \<and>
      DBCustomer.lastUpdated customer' = Some ''2026-11-03T10:00:00Z'')"
proof -
  have found: "query_customer acme_db 1 = Inr (Some acme_row)"
    by (simp add: evaluate)
  show ?thesis
    using found
      update_customer_status [OF found, of acme "''2026-11-03T10:00:00Z''"]
      update_customer_status [OF found, of globex "''2026-11-03T10:00:00Z''"]
    by (simp add: acme_def globex_def)
qed

text \<open>
  C4. Updating a sales order whose id exists answers 204 whatever the payload. The
  row with that id gets \<^verbatim>\<open>status = "Billed"\<close> and \<^verbatim>\<open>lastUpdated\<close> the time of the
  call and keeps its \<^verbatim>\<open>id\<close>, \<^verbatim>\<open>tranId\<close>, \<^verbatim>\<open>entity\<close>, \<^verbatim>\<open>total\<close> and
  \<^verbatim>\<open>trandate\<close>; the rows before and after it, and the customers table, are as
  they were.
\<close>

theorem update_sales_order_frame:
  assumes "query_order db order_id = Inr (Some order)"
  shows "\<exists>db' before after order'.
           update_sales_order order_id order_update now db = (Inr (204, NoContent), db') \<and>
           sales_orders db = before @ order # after \<and>
           (\<forall>row \<in> set before. DBSalesOrder.id_col row \<noteq> Some order_id) \<and>
           sales_orders db' = before @ order' # after \<and>
           customers db' = customers db \<and>
           DBSalesOrder.status order' = ''Billed'' \<and>
           DBSalesOrder.lastUpdated order' = Some now \<and>
           DBSalesOrder.id_col order' = DBSalesOrder.id_col order \<and>
           DBSalesOrder.tranId order' = DBSalesOrder.tranId order \<and>
           DBSalesOrder.entity order' = DBSalesOrder.entity order \<and>
           DBSalesOrder.total order' = DBSalesOrder.total order \<and>
           DBSalesOrder.trandate order' = DBSalesOrder.trandate order"
proof -
  let ?new = "order\<lparr>DBSalesOrder.status := ''Billed'', DBSalesOrder.lastUpdated := Some now\<rparr>"
  from assms have key: "DBSalesOrder.id_col ?new = Some order_id"
    by (simp add: query_order_Some)
  from query_order_Some [OF assms]
  have "find (\<lambda>row. DBSalesOrder.id_col row = Some order_id) (sales_orders db) = Some order"
    by (simp add: select_order_def)
  then obtain before after where split:
    "sales_orders db = before @ order # after"
    "\<forall>row \<in> set before. DBSalesOrder.id_col row \<noteq> Some order_id"
    "replace_order ?new (sales_orders db) = before @ ?new # after"
    using replace_order_split [OF _ key] by blast
  let ?db' = "db\<lparr>sales_orders := before @ ?new # after\<rparr>"
  have "update_sales_order order_id order_update now db = (Inr (204, NoContent), ?db')"
    using update_sales_order_found [OF assms] split(3) by simp
  moreover have "sales_orders ?db' = before @ ?new # after" by simp
  moreover have "customers ?db' = customers db" by simp
  ultimately show ?thesis
    using split(1,2)
    apply -
    apply (rule exI [of _ ?db'])
    apply (rule exI [of _ before])
    apply (rule exI [of _ after])
    apply (rule exI [of _ ?new])
    apply simp
    done
qed

theorem update_sales_order_frame_witness:
  "query_order orders_db 1 = Inr (Some order_row) \<and>
   update_sales_order 1 first_order ''2026-11-03T11:00:00Z'' orders_db =
     (Inr (204, NoContent),
      \<lparr>customers = [acme_row],
       sales_orders =
         [order_row\<lparr>DBSalesOrder.status := ''Billed'',
                    DBSalesOrder.lastUpdated := Some ''2026-11-03T11:00:00Z''\<rparr>,
          second_order_row]\<rparr>)"
proof -
  have found: "query_order orders_db 1 = Inr (Some order_row)"
    by (simp add: evaluate)
  show ?thesis
    using found update_sales_order_frame [OF found, of first_order "''2026-11-03T11:00:00Z''"]
    by (simp add: update_sales_order_def commit_order_def evaluate)
qed

text \<open>
  C5, as the claim states it, fails for an \<^verbatim>\<open>entity\<close> outside the signed 64-bit
  range: no customer has the id \<open>2\<^sup>6\<^sup>3\<close>, and the lookup raises
  \<^verbatim>\<open>OverflowError\<close>, which is answered with 500 and not with 400.
\<close>

theorem create_sales_order_unknown_customer_counterexample:
  "Some too_big \<notin> DBCustomer.id_col ` set (customers acme_db) \<and>
   create_sales_order (first_order\<lparr>SalesOrderBase.entity := too_big\<rparr>) ''2026-11-03'' acme_db
     = (Inl int_overflow, acme_db) \<and>
   http_status int_overflow = 500"
  by (simp add: create_sales_order_def int_overflow_def evaluate)

text \<open>
  C5, amended to the integers SQLite holds. Creating a sales order whose
  \<^verbatim>\<open>entity\<close> is the id of no customer fails and leaves the database unchanged.
  When the \<^verbatim>\<open>entity\<close> is within the signed 64-bit range the failure is a 400
  whose message names that id in decimal (and no other id gives the same message);
  outside that range it is the \<^verbatim>\<open>OverflowError\<close> of the lookup (500).
\<close>

theorem create_sales_order_unknown_customer:
  assumes "Some (SalesOrderBase.entity order) \<notin> DBCustomer.id_col ` set (customers db)"
  shows "(in_int64 (SalesOrderBase.entity order) \<longrightarrow>
           (\<exists>detail.
              create_sales_order order today db = (Inl (HTTPException 400 detail), db) \<and>
              http_status (HTTPException 400 detail) = 400 \<and>
              detail = ''Customer ID '' @ str_int (SalesOrderBase.entity order)
                         @ '' not found. Cannot create Sales Order.'' \<and>
              (\<forall>i. detail = ''Customer ID '' @ str_int i
                             @ '' not found. Cannot create Sales Order.''
                   \<longrightarrow> i = SalesOrderBase.entity order))) \<and>
         (\<not> in_int64 (SalesOrderBase.entity order) \<longrightarrow>
            create_sales_order order today db = (Inl int_overflow, db) \<and>
            http_status int_overflow = 500)"
proof (intro conjI impI)
  assume range: "in_int64 (SalesOrderBase.entity order)"
  with assms have "query_customer db (SalesOrderBase.entity order) = Inr None"
    by (simp add: query_customer_None)
  then have "create_sales_order order today db =
     (Inl (HTTPException 400 (''Customer ID '' @ str_int (SalesOrderBase.entity order)
                      @ '' not found. Cannot create Sales Order.'')), db)"
    by (simp add: create_sales_order_def)
  moreover have "\<forall>i. ''Customer ID '' @ str_int (SalesOrderBase.entity order)
                      @ '' not found. Cannot create Sales Order.''
       = ''Customer ID '' @ str_int i @ '' not found. Cannot create Sales Order.''
                \<longrightarrow> i = SalesOrderBase.entity order"
    using str_int_inject by auto
  ultimately show "\<exists>detail.
              create_sales_order order today db = (Inl (HTTPException 400 detail), db) \<and>
              http_status (HTTPException 400 detail) = 400 \<and>
              detail = ''Customer ID '' @ str_int (SalesOrderBase.entity order)
                         @ '' not found. Cannot create Sales Order.'' \<and>
              (\<forall>i. detail = ''Customer ID '' @ str_int i
                             @ '' not found. Cannot create Sales Order.''
                   \<longrightarrow> i = SalesOrderBase.entity order)"
    by simp
next
  assume "\<not> in_int64 (SalesOrderBase.entity order)"
  then show "create_sales_order order today db = (Inl int_overflow, db)"
    by (simp add: create_sales_order_def query_customer_overflow)
next
  show "http_status int_overflow = 500" by (simp add: int_overflow_def)
qed

theorem create_sales_order_unknown_customer_witness:
  "Some (7::int) \<notin> DBCustomer.id_col ` set (customers orders_db) \<and> in_int64 7 \<and>
   create_sales_order (first_order\<lparr>SalesOrderBase.entity := 7\<rparr>) ''2026-11-03'' orders_db =
     (Inl (HTTPException 400 ''Customer ID 7 not found. Cannot create Sales Order.''), orders_db) \<and>
   Some too_big \<notin> DBCustomer.id_col ` set (customers orders_db) \<and> \<not> in_int64 too_big \<and>
   create_sales_order (first_order\<lparr>SalesOrderBase.entity := too_big\<rparr>) ''2026-11-03'' orders_db =
     (Inl int_overflow, orders_db)"
proof -
  have absent: "Some (SalesOrderBase.entity (first_order\<lparr>SalesOrderBase.entity := 7\<rparr>))
      \<notin> DBCustomer.id_col ` set (customers orders_db)"
    by (simp add: evaluate)
  have absent_big:
    "Some (SalesOrderBase.entity (first_order\<lparr>SalesOrderBase.entity := too_big\<rparr>))
      \<notin> DBCustomer.id_col ` set (customers orders_db)"
    by (simp add: evaluate)
  show ?thesis
    using absent absent_big too_big_overflow
      create_sales_order_unknown_customer [OF absent, of "''2026-11-03''"]
      create_sales_order_unknown_customer [OF absent_big, of "''2026-11-03''"]
    by (simp add: evaluate)
qed

text \<open>
  C6, as the claim states it, fails for an id outside the signed 64-bit range: no
  row has the id \<open>2\<^sup>6\<^sup>3\<close>, and deleting it raises the \<^verbatim>\<open>OverflowError\<close> of the
  lookup, answered with 500 and not with 404, for customers and for sales orders.
\<close>

theorem delete_not_found_counterexample:
  "Some too_big \<notin> DBCustomer.id_col ` set (customers orders_db) \<and>
   delete_customer too_big orders_db = (Inl int_overflow, orders_db) \<and>
   Some too_big \<notin> DBSalesOrder.id_col ` set (sales_orders orders_db) \<and>
   delete_sales_order too_big orders_db = (Inl int_overflow, orders_db) \<and>
   http_status int_overflow = 500"
  by (simp add: delete_customer_def delete_sales_order_def int_overflow_def evaluate)

text \<open>
  C6, amended to the integers SQLite holds. For customers and for sales orders, and
  an id within the signed 64-bit range: deleting an id that no row has fails with
  404 and leaves the database as it was; deleting an id that a row has answers 204
  and leaves the table without the rows of that id and with all the others; after a
  customer is deleted, getting it by the same id fails with 404. An id outside that
  range fails with the \<^verbatim>\<open>OverflowError\<close> of the lookup and leaves the database
  as it was.
\<close>

theorem delete_not_found_and_removed:
  "(in_int64 customer_id \<and> Some customer_id \<notin> DBCustomer.id_col ` set (customers db) \<longrightarrow>
      delete_customer customer_id db = (Inl (HTTPException 404 ''Customer not found''), db)) \<and>
   (in_int64 order_id \<and> Some order_id \<notin> DBSalesOrder.id_col ` set (sales_orders db) \<longrightarrow>
      delete_sales_order order_id db = (Inl (HTTPException 404 ''Sales Order not found''), db)) \<and>
   (in_int64 customer_id \<and> Some customer_id \<in> DBCustomer.id_col ` set (customers db) \<longrightarrow>
      (\<exists>db'. delete_customer customer_id db = (Inr (204, NoContent), db') \<and>
         customers db' =
           filter (\<lambda>row. DBCustomer.id_col row \<noteq> Some customer_id) (customers db) \<and>
         Some customer_id \<notin> DBCustomer.id_col ` set (customers db') \<and>
         get_customer_by_id customer_id db'
           = (Inl (HTTPException 404 ''Customer not found''), db'))) \<and>
   (in_int64 order_id \<and> Some order_id \<in> DBSalesOrder.id_col ` set (sales_orders db) \<longrightarrow>
      (\<exists>db'. delete_sales_order order_id db = (Inr (204, NoContent), db') \<and>
         sales_orders db' =
           filter (\<lambda>row. DBSalesOrder.id_col row \<noteq> Some order_id) (sales_orders db) \<and>
         Some order_id \<notin> DBSalesOrder.id_col ` set (sales_orders db'))) \<and>
   (\<not> in_int64 customer_id \<longrightarrow> delete_customer customer_id db = (Inl int_overflow, db)) \<and>
   (\<not> in_int64 order_id \<longrightarrow> delete_sales_order order_id db = (Inl int_overflow, db))"
proof (intro conjI impI)
  assume "in_int64 customer_id \<and> Some customer_id \<notin> DBCustomer.id_col ` set (customers db)"
  then have "query_customer db customer_id = Inr None" by (simp add: query_customer_None)
  then show "delete_customer customer_id db = (Inl (HTTPException 404 ''Customer not found''), db)"
    by (simp add: delete_customer_def)
next
  assume "in_int64 order_id \<and> Some order_id \<notin> DBSalesOrder.id_col ` set (sales_orders db)"
  then have "query_order db order_id = Inr None" by (simp add: query_order_None)
  then show "delete_sales_order order_id db
      = (Inl (HTTPException 404 ''Sales Order not found''), db)"
    by (simp add: delete_sales_order_def)
next
  let ?db' = "db\<lparr>customers :=
           filter (\<lambda>row. DBCustomer.id_col row \<noteq> Some customer_id) (customers db)\<rparr>"
  assume present:
    "in_int64 customer_id \<and> Some customer_id \<in> DBCustomer.id_col ` set (customers db)"
  then obtain customer where "query_customer db customer_id = Inr (Some customer)"
    using query_customer_present [of customer_id db] by blast
  then have deleted: "delete_customer customer_id db = (Inr (204, NoContent), ?db')"
    by (rule delete_customer_found)
  have gone: "Some customer_id \<notin> DBCustomer.id_col ` set (customers ?db')" by auto
  with present have "query_customer ?db' customer_id = Inr None"
    using query_customer_None [of customer_id ?db'] by blast
  then have "get_customer_by_id customer_id ?db'
      = (Inl (HTTPException 404 ''Customer not found''), ?db')"
    by (simp add: get_customer_by_id_def)
  with deleted gone
  show "\<exists>db'. delete_customer customer_id db = (Inr (204, NoContent), db') \<and>
         customers db' =
           filter (\<lambda>row. DBCustomer.id_col row \<noteq> Some customer_id) (customers db) \<and>
         Some customer_id \<notin> DBCustomer.id_col ` set (customers db') \<and>
         get_customer_by_id customer_id db'
           = (Inl (HTTPException 404 ''Customer not found''), db')"
    by simp
next
  let ?db' = "db\<lparr>sales_orders :=
           filter (\<lambda>row. DBSalesOrder.id_col row \<noteq> Some order_id) (sales_orders db)\<rparr>"
  assume "in_int64 order_id \<and> Some order_id \<in> DBSalesOrder.id_col ` set (sales_orders db)"
  then obtain order where "query_order db order_id = Inr (Some order)"
    using query_order_present [of order_id db] by blast
  then have deleted: "delete_sales_order order_id db = (Inr (204, NoContent), ?db')"
    by (rule delete_sales_order_found)
  have "Some order_id \<notin> DBSalesOrder.id_col ` set (sales_orders ?db')" by auto
  with deleted
  show "\<exists>db'. delete_sales_order order_id db = (Inr (204, NoContent), db') \<and>
         sales_orders db' =
           filter (\<lambda>row. DBSalesOrder.id_col row \<noteq> Some order_id) (sales_orders db) \<and>
         Some order_id \<notin> DBSalesOrder.id_col ` set (sales_orders db')"
    by simp
next
  assume "\<not> in_int64 customer_id"
  then show "delete_customer customer_id db = (Inl int_overflow, db)"
    by (simp add: delete_customer_def query_customer_overflow)
next
  assume "\<not> in_int64 order_id"
  then show "delete_sales_order order_id db = (Inl int_overflow, db)"
    by (simp add: delete_sales_order_def query_order_overflow)
qed

theorem delete_not_found_and_removed_witness:
  "in_int64 5 \<and> Some (5::int) \<notin> DBCustomer.id_col ` set (customers orders_db) \<and>
   delete_customer 5 orders_db = (Inl (HTTPException 404 ''Customer not found''), orders_db) \<and>
   Some (5::int) \<notin> DBSalesOrder.id_col ` set (sales_orders orders_db) \<and>
   delete_sales_order 5 orders_db
     = (Inl (HTTPException 404 ''Sales Order not found''), orders_db) \<and>
   in_int64 1 \<and> Some (1::int) \<in> DBCustomer.id_col ` set (customers orders_db) \<and>
   delete_customer 1 orders_db
     = (Inr (204, NoContent), orders_db\<lparr>customers := []\<rparr>) \<and>
   get_customer_by_id 1 (orders_db\<lparr>customers := []\<rparr>)
     = (Inl (HTTPException 404 ''Customer not found''), orders_db\<lparr>customers := []\<rparr>) \<and>
   Some (1::int) \<in> DBSalesOrder.id_col ` set (sales_orders orders_db) \<and>
   delete_sales_order 1 orders_db
     = (Inr (204, NoContent), orders_db\<lparr>sales_orders := [second_order_row]\<rparr>) \<and>
   \<not> in_int64 too_big \<and>
   delete_customer too_big orders_db = (Inl int_overflow, orders_db) \<and>
   delete_sales_order too_big orders_db = (Inl int_overflow, orders_db)"
  using delete_not_found_and_removed [of 5 orders_db 5]
    delete_not_found_and_removed [of 1 orders_db 1]
    delete_not_found_and_removed [of too_big orders_db too_big]
    too_big_overflow
  by (simp add: delete_customer_def delete_customer_row_def delete_sales_order_def
      delete_order_row_def get_customer_by_id_def evaluate)

text \<open>
  C7. A customer delete that succeeds leaves the sales orders table exactly as it
  was: the orders whose \<^verbatim>\<open>entity\<close> is the deleted customer's id are still there,
  unchanged.
\<close>

theorem delete_customer_keeps_orders:
  assumes "delete_customer customer_id db = (Inr ok, db')"
  shows "sales_orders db' = sales_orders db \<and>
         (\<forall>order \<in> set (sales_orders db).
            DBSalesOrder.entity order = customer_id \<longrightarrow> order \<in> set (sales_orders db'))"
  using assms
  by (auto simp: delete_customer_def delete_customer_row_def split: option.splits sum.splits)

theorem delete_customer_keeps_orders_witness:
  "delete_customer 1 orders_db = (Inr (204, NoContent), orders_db\<lparr>customers := []\<rparr>) \<and>
   DBSalesOrder.entity order_row = 1 \<and>
   sales_orders (orders_db\<lparr>customers := []\<rparr>) = [order_row, second_order_row]"
proof -
  have deleted:
    "delete_customer 1 orders_db = (Inr (204, NoContent), orders_db\<lparr>customers := []\<rparr>)"
    by (simp add: delete_customer_def delete_customer_row_def evaluate)
  show ?thesis
    using deleted delete_customer_keeps_orders [OF deleted]
    by (simp add: evaluate)
qed

text \<open>
  C8. A customer update that the service accepts had \<^verbatim>\<open>companyName\<close> and
  \<^verbatim>\<open>email\<close> in its body, both strings, and the row then stored under the id has
  exactly those two values. A body that leaves either of them out is rejected by the
  schema, and the database is untouched: omitting a field does not preserve it.
\<close>

theorem put_customer_overwrites:
  "(put_customer customer_id body now db = (Inr ok, db') \<longrightarrow>
      (\<exists>members cn em customer'.
         body = JObject members \<and>
         json_get members ''companyName'' = Some (JString cn) \<and>
         json_get members ''email'' = Some (JString em) \<and>
         query_customer db' customer_id = Inr (Some customer') \<and>
         DBCustomer.companyName customer' = cn \<and>
         DBCustomer.email customer' = em)) \<and>
   (\<forall>members.
      body = JObject members \<and>
      (json_get members ''companyName'' = None \<or> json_get members ''email'' = None) \<longrightarrow>
      put_customer customer_id body now db = (Inl RequestValidationError, db))"
proof (intro conjI impI allI)
  assume succeeded: "put_customer customer_id body now db = (Inr ok, db')"
  then obtain u where valid: "validate_CustomerBase body = Inr u"
    and updated: "update_customer customer_id u now db = (Inr ok, db')"
    by (auto simp: put_customer_def split: sum.splits)
  from validate_CustomerBase_Inr [OF valid] obtain members where body:
    "body = JObject members"
    "json_get members ''companyName'' = Some (JString (CustomerBase.companyName u))"
    "json_get members ''email'' = Some (JString (CustomerBase.email u))"
    "''companyName'' \<in> set (fields_set u)" "''email'' \<in> set (fields_set u)"
    by blast
  from updated obtain customer where
    found: "query_customer db customer_id = Inr (Some customer)"
    by (auto simp: update_customer_def split: option.splits sum.splits)
  let ?new = "foldl setattr_customer
           (customer\<lparr>DBCustomer.status := ''On Hold'', DBCustomer.lastUpdated := Some now\<rparr>)
           (model_dump_exclude_unset u)"
  from found have key: "DBCustomer.id_col ?new = Some customer_id"
    by (simp add: setattr_payload_keeps query_customer_Some)
  from updated have db': "db' = db\<lparr>customers := replace_customer ?new (customers db)\<rparr>"
    by (simp add: update_customer_found [OF found])
  have "query_customer db' customer_id = Inr (Some ?new)"
    unfolding db' by (rule query_replace_customer [OF found key])
  moreover from body have "DBCustomer.companyName ?new = CustomerBase.companyName u"
    and "DBCustomer.email ?new = CustomerBase.email u"
    by (simp_all add: setattr_payload_names)
  ultimately show "\<exists>members cn em customer'.
         body = JObject members \<and>
         json_get members ''companyName'' = Some (JString cn) \<and>
         json_get members ''email'' = Some (JString em) \<and>
         query_customer db' customer_id = Inr (Some customer') \<and>
         DBCustomer.companyName customer' = cn \<and>
         DBCustomer.email customer' = em"
    using body by blast
next
  fix members
  assume "body = JObject members \<and>
      (json_get members ''companyName'' = None \<or> json_get members ''email'' = None)"
  then show "put_customer customer_id body now db = (Inl RequestValidationError, db)"
    by (simp add: put_customer_def validate_CustomerBase_missing)
qed

theorem put_customer_overwrites_witness:
  "put_customer 1
     (JObject [(''companyName'', JString ''Acme Ltd''), (''email'', JString ''new@acme.com'')])
     ''2026-11-03T10:00:00Z'' acme_db
   = (Inr (204, NoContent),
      acme_db\<lparr>customers :=
        [acme_row\<lparr>DBCustomer.companyName := ''Acme Ltd'', DBCustomer.email := ''new@acme.com'',
                   DBCustomer.status := ''On Hold'',
                   DBCustomer.lastUpdated := Some ''2026-11-03T10:00:00Z''\<rparr>]\<rparr>) \<and>
   json_get [(''email'', JString ''new@acme.com'')] ''companyName'' = None \<and>
   put_customer 1 (JObject [(''email'', JString ''new@acme.com'')])
     ''2026-11-03T10:00:00Z'' acme_db
   = (Inl RequestValidationError, acme_db)"
proof -
  have succeeded: "put_customer 1
     (JObject [(''companyName'', JString ''Acme Ltd''), (''email'', JString ''new@acme.com'')])
     ''2026-11-03T10:00:00Z'' acme_db
   = (Inr (204, NoContent),
      acme_db\<lparr>customers :=
        [acme_row\<lparr>DBCustomer.companyName := ''Acme Ltd'', DBCustomer.email := ''new@acme.com'',
                   DBCustomer.status := ''On Hold'',
                   DBCustomer.lastUpdated := Some ''2026-11-03T10:00:00Z''\<rparr>]\<rparr>)"
    by (simp add: put_customer_def validate_CustomerBase_def json_get_def update_customer_def
        model_dump_exclude_unset_def setattr_customer_def evaluate)
  show ?thesis
    using succeeded
      put_customer_overwrites [of 1
        "JObject [(''companyName'', JString ''Acme Ltd''), (''email'', JString ''new@acme.com'')]"
        "''2026-11-03T10:00:00Z''" acme_db "(204, NoContent)"
        "acme_db\<lparr>customers :=
        [acme_row\<lparr>DBCustomer.companyName := ''Acme Ltd'', DBCustomer.email := ''new@acme.com'',
                   DBCustomer.status := ''On Hold'',
                   DBCustomer.lastUpdated := Some ''2026-11-03T10:00:00Z''\<rparr>]\<rparr>"]
      put_customer_overwrites [of 1 "JObject [(''email'', JString ''new@acme.com'')]"
        "''2026-11-03T10:00:00Z''" acme_db]
    by (simp add: json_get_def)
qed

text \<open>
  C9, as the claim states it, fails for an id outside the signed 64-bit range: no
  order has the id \<open>2\<^sup>6\<^sup>3\<close>, and updating it raises the \<^verbatim>\<open>OverflowError\<close> of the
  lookup (500), which is not Not-Found.
\<close>

theorem update_sales_order_not_found_counterexample:
  "Some too_big \<notin> DBSalesOrder.id_col ` set (sales_orders orders_db) \<and>
   update_sales_order too_big first_order ''2026-11-03T11:00:00Z'' orders_db
     = (Inl int_overflow, orders_db) \<and>
   int_overflow \<noteq> HTTPException 404 ''Sales Order not found'' \<and>
   http_status int_overflow = 500"
  by (simp add: update_sales_order_def int_overflow_def evaluate)

text \<open>
  C9, amended to the integers SQLite holds. Updating a sales order raises Not-Found
  (404) exactly when the id is within the signed 64-bit range and no row has it; for
  an id within the range that is its only failure, and outside the range it fails
  with the \<^verbatim>\<open>OverflowError\<close> of the lookup. When a row has the id the update
  answers 204 and the row stored under the id has \<^verbatim>\<open>status = "Billed"\<close>, whatever
  the customers table holds: in particular after the customer that the order's
  \<^verbatim>\<open>entity\<close> names was deleted.
\<close>

theorem update_sales_order_not_found_iff:
  "((\<exists>detail. fst (update_sales_order order_id order_update now db)
                 = Inl (HTTPException 404 detail)) =
      (in_int64 order_id \<and> Some order_id \<notin> DBSalesOrder.id_col ` set (sales_orders db))) \<and>
   (in_int64 order_id \<longrightarrow>
      ((\<exists>e. fst (update_sales_order order_id order_update now db) = Inl e) =
       (Some order_id \<notin> DBSalesOrder.id_col ` set (sales_orders db)))) \<and>
   (in_int64 order_id \<and> Some order_id \<notin> DBSalesOrder.id_col ` set (sales_orders db) \<longrightarrow>
      update_sales_order order_id order_update now db
        = (Inl (HTTPException 404 ''Sales Order not found''), db)) \<and>
   (\<not> in_int64 order_id \<longrightarrow>
      update_sales_order order_id order_update now db = (Inl int_overflow, db)) \<and>
   (\<forall>order. query_order db order_id = Inr (Some order) \<longrightarrow>
      (\<exists>db' order'.
         update_sales_order order_id order_update now db = (Inr (204, NoContent), db') \<and>
         query_order db' order_id = Inr (Some order') \<and>
         DBSalesOrder.status order' = ''Billed'')) \<and>
   (\<forall>order ok db1.
      query_order db order_id = Inr (Some order) \<and>
      delete_customer (DBSalesOrder.entity order) db = (Inr ok, db1) \<longrightarrow>
      Some (DBSalesOrder.entity order) \<notin> DBCustomer.id_col ` set (customers db1) \<and>
      (\<exists>db2 order'.
         update_sales_order order_id order_update now db1 = (Inr (204, NoContent), db2) \<and>
         query_order db2 order_id = Inr (Some order') \<and>
         DBSalesOrder.entity order' = DBSalesOrder.entity order \<and>
         DBSalesOrder.status order' = ''Billed''))"
proof -
  have found: "\<exists>db' order'.
         update_sales_order order_id order_update now d = (Inr (204, NoContent), db') \<and>
         query_order db' order_id = Inr (Some order') \<and>
         DBSalesOrder.entity order' = DBSalesOrder.entity order \<and>
         DBSalesOrder.status order' = ''Billed''"
    if q: "query_order d order_id = Inr (Some order)" for d :: "'a database" and order
  proof -
    let ?new = "order\<lparr>DBSalesOrder.status := ''Billed'', DBSalesOrder.lastUpdated := Some now\<rparr>"
    from q have key: "DBSalesOrder.id_col ?new = Some order_id"
      by (simp add: query_order_Some)
    have "query_order (d\<lparr>sales_orders := replace_order ?new (sales_orders d)\<rparr>) order_id
        = Inr (Some ?new)"
      by (rule query_replace_order [OF q key])
    then show ?thesis
      using update_sales_order_found [OF q, of order_update now] by simp
  qed
  have absent: "update_sales_order order_id order_update now db
        = (Inl (HTTPException 404 ''Sales Order not found''), db)"
    if "in_int64 order_id \<and> Some order_id \<notin> DBSalesOrder.id_col ` set (sales_orders db)"
  proof -
    from that have "query_order db order_id = Inr None" by (simp add: query_order_None)
    then show ?thesis by (simp add: update_sales_order_def)
  qed
  have overflow: "update_sales_order order_id order_update now db = (Inl int_overflow, db)"
    if "\<not> in_int64 order_id"
    using that by (simp add: update_sales_order_def query_order_overflow)
  have fails: "(\<exists>e. fst (update_sales_order order_id order_update now db) = Inl e) =
      (Some order_id \<notin> DBSalesOrder.id_col ` set (sales_orders db))"
    if range: "in_int64 order_id"
  proof (cases "Some order_id \<in> DBSalesOrder.id_col ` set (sales_orders db)")
    case True
    with range obtain order where "query_order db order_id = Inr (Some order)"
      using query_order_present [of order_id db] by blast
    from found [OF this] True show ?thesis by auto
  next
    case False
    with range absent show ?thesis by simp
  qed
  have not_found: "(\<exists>detail. fst (update_sales_order order_id order_update now db)
                 = Inl (HTTPException 404 detail)) =
      (in_int64 order_id \<and> Some order_id \<notin> DBSalesOrder.id_col ` set (sales_orders db))"
  proof (cases "in_int64 order_id")
    case False
    with overflow show ?thesis by (simp add: int_overflow_def)
  next
    case True
    show ?thesis
    proof (cases "Some order_id \<in> DBSalesOrder.id_col ` set (sales_orders db)")
      case present: True
      with True obtain order where "query_order db order_id = Inr (Some order)"
        using query_order_present [of order_id db] by blast
      from found [OF this] present show ?thesis by auto
    next
      case False
      with True absent show ?thesis by simp
    qed
  qed
  have orphan: "Some (DBSalesOrder.entity order) \<notin> DBCustomer.id_col ` set (customers db1) \<and>
      (\<exists>db2 order'.
         update_sales_order order_id order_update now db1 = (Inr (204, NoContent), db2) \<and>
         query_order db2 order_id = Inr (Some order') \<and>
         DBSalesOrder.entity order' = DBSalesOrder.entity order \<and>
         DBSalesOrder.status order' = ''Billed'')"
    if q: "query_order db order_id = Inr (Some order)"
      and del: "delete_customer (DBSalesOrder.entity order) db = (Inr ok, db1)"
    for order ok db1
  proof -
    from del obtain customer where
      c: "query_customer db (DBSalesOrder.entity order) = Inr (Some customer)"
      by (auto simp: delete_customer_def split: option.splits sum.splits)
    from del have db1: "db1 = db\<lparr>customers :=
           filter (\<lambda>row. DBCustomer.id_col row \<noteq> Some (DBSalesOrder.entity order))
             (customers db)\<rparr>"
      by (simp add: delete_customer_found [OF c])
    have gone: "Some (DBSalesOrder.entity order) \<notin> DBCustomer.id_col ` set (customers db1)"
      unfolding db1 by auto
    from query_order_Some [OF q] have "query_order db1 order_id = Inr (Some order)"
      by (simp add: db1 query_order_def select_order_def)
    from found [OF this] gone show ?thesis by simp
  qed
  from not_found fails absent overflow found orphan show ?thesis by blast
qed

theorem update_sales_order_not_found_iff_witness:
  "in_int64 9 \<and> Some (9::int) \<notin> DBSalesOrder.id_col ` set (sales_orders orders_db) \<and>
   update_sales_order 9 first_order ''2026-11-03T11:00:00Z'' orders_db
     = (Inl (HTTPException 404 ''Sales Order not found''), orders_db) \<and>
   \<not> in_int64 too_big \<and>
   update_sales_order too_big first_order ''2026-11-03T11:00:00Z'' orders_db
     = (Inl int_overflow, orders_db) \<and>
   query_order orders_db 1 = Inr (Some order_row) \<and>
   delete_customer (DBSalesOrder.entity order_row) orders_db
     = (Inr (204, NoContent), orders_db\<lparr>customers := []\<rparr>) \<and>
   Some (DBSalesOrder.entity order_row)
     \<notin> DBCustomer.id_col ` set (customers (orders_db\<lparr>customers := []\<rparr>)) \<and>
   update_sales_order 1 first_order ''2026-11-03T11:00:00Z'' (orders_db\<lparr>customers := []\<rparr>)
     = (Inr (204, NoContent),
        \<lparr>customers = [],
         sales_orders =
           [order_row\<lparr>DBSalesOrder.status := ''Billed'',
                      DBSalesOrder.lastUpdated := Some ''2026-11-03T11:00:00Z''\<rparr>,
            second_order_row]\<rparr>)"
  using update_sales_order_not_found_iff [of 9 first_order "''2026-11-03T11:00:00Z''" orders_db]
    update_sales_order_not_found_iff
      [of too_big first_order "''2026-11-03T11:00:00Z''" orders_db]
    update_sales_order_not_found_iff [of 1 first_order "''2026-11-03T11:00:00Z''" orders_db]
    too_big_overflow
  by (simp add: update_sales_order_def commit_order_def delete_customer_def
      delete_customer_row_def evaluate)

text \<open>
  C10. Listing the customers and getting a customer by id return the database they
  were given, whatever they answer: the list, the customer, Not-Found, or the
  \<^verbatim>\<open>OverflowError\<close> of the lookup.
\<close>

theorem read_only_endpoints:
  "snd (get_customer_collection db) = db \<and>
   fst (get_customer_collection db) = Inr (200, CustomerList (customers db)) \<and>
   snd (get_customer_by_id customer_id db) = db \<and>
   (fst (get_customer_by_id customer_id db) = Inl (HTTPException 404 ''Customer not found'')
      \<or> fst (get_customer_by_id customer_id db) = Inl int_overflow
      \<or> (\<exists>customer. fst (get_customer_by_id customer_id db) = Inr (200, Customer customer)))"
  by (auto simp: get_customer_collection_def get_customer_by_id_def query_customer_def
      split: option.splits)

end
